theory Spec2Isabelle
  imports Complex_Main "HOL-Library.Word"
begin

unbundle bit_operations_syntax

section \<open>Machine integers and the two clocks\<close>

text \<open>
  \<open>int64_t\<close> and \<open>uint32_t\<close> are words: \<open>+\<close> and \<open>-\<close> wrap around, \<open><s\<close> is the
  signed comparison of two \<open>int64_t\<close>, \<open>signed_drop_bit 1\<close> is \<open>>> 1\<close> on an
  \<open>int64_t\<close>.
\<close>

type_synonym int64 = "64 word"
type_synonym uint32 = "32 word"

text \<open>
  \<open>rdtsc()\<close> and \<open>rdsysns()\<close> read the outside world. The world is the two sequences of
  values the coming calls will return; a call returns the head and leaves the rest.
\<close>

record world =
  tsc_reads :: "nat \<Rightarrow> int64"
  sys_reads :: "nat \<Rightarrow> int64"

definition rdtsc :: "world \<Rightarrow> int64 \<times> world" where
  "rdtsc w = (tsc_reads w 0, w\<lparr>tsc_reads := \<lambda>k. tsc_reads w (Suc k)\<rparr>)"

definition rdsysns :: "world \<Rightarrow> int64 \<times> world" where
  "rdsysns w = (sys_reads w 0, w\<lparr>sys_reads := \<lambda>k. sys_reads w (Suc k)\<rparr>)"

section \<open>syncTime\<close>

text \<open>
  \<open>constexpr int32_t N = 3\<close>; the arrays \<open>tsc\<close> and \<open>ns\<close> have \<open>N + 1\<close> cells. The cells
  start out uninitialised in the source; every cell that is read has been written
  before (\<open>ns[0]\<close> is never read), so the model starts them at 0.
\<close>

definition N :: nat where
  "N = 3"

definition sample_step :: "nat \<Rightarrow> int64 list \<times> int64 list \<times> world \<Rightarrow> int64 list \<times> int64 list \<times> world" where
  "sample_step i st =
     (case st of (tsc, ns, w) \<Rightarrow>
        (case rdsysns w of (n, w1) \<Rightarrow>
           (case rdtsc w1 of (t, w2) \<Rightarrow> (tsc[i := t], ns[i := n], w2))))"

definition best_step :: "int64 list \<Rightarrow> nat \<Rightarrow> nat \<Rightarrow> nat" where
  "best_step tsc i best =
     (if tsc ! i - tsc ! (i - 1) <s tsc ! best - tsc ! (best - 1) then i else best)"

definition syncTime :: "world \<Rightarrow> (int64 \<times> int64) \<times> world" where
  "syncTime w =
     (case rdtsc w of (t0, w0) \<Rightarrow>
        (case fold sample_step [1..<N + 1] ((replicate (N + 1) 0)[0 := t0], replicate (N + 1) 0, w0) of
           (tsc, ns, w') \<Rightarrow>
             (let best = fold (best_step tsc) [2..<N + 1] 1
              in ((signed_drop_bit 1 (tsc ! best + tsc ! (best - 1)), ns ! best), w'))))"

section \<open>The clock parameters and double arithmetic\<close>

text \<open>
  The code computes with \<open>double\<close> in five ways: an \<open>int64_t\<close> is converted to
  \<open>double\<close>, two doubles are multiplied, divided or subtracted, and a \<open>double\<close> is
  cast to \<open>int64_t\<close>; the only literal is \<open>1.0\<close>. The model takes these operations as a
  parameter \<open>fp\<close> over a type \<open>'d\<close> of doubles, so every theorem below holds for
  whatever the platform's arithmetic is; \<open>binary64\<close> further down is the instance the
  concrete examples run on.
\<close>

record 'd fp_ops =
  d_of_int64 :: "int64 \<Rightarrow> 'd"
  d_one :: "'d"
  d_mul :: "'d \<Rightarrow> 'd \<Rightarrow> 'd"
  d_div :: "'d \<Rightarrow> 'd \<Rightarrow> 'd"
  d_sub :: "'d \<Rightarrow> 'd \<Rightarrow> 'd"
  d_to_int64 :: "'d \<Rightarrow> int64"

text \<open>The data members of \<open>class TSCNS\<close> (the trailing underscore of each name dropped).\<close>

record 'd tscns =
  param_seq :: uint32
  ns_per_tsc :: "'d"
  base_tsc :: int64
  base_ns :: int64
  calibrate_interval_ns :: int64
  base_ns_err :: int64
  next_calibrate_tsc :: int64

section \<open>tsc2ns\<close>

text \<open>
  The right-hand side of the declaration inside the loop body:
  \<open>base_ns_ + static_cast<int64_t>((tsc - base_tsc_) * ns_per_tsc_)\<close>.
\<close>

definition tsc2ns_expr :: "'d fp_ops \<Rightarrow> 'd tscns \<Rightarrow> int64 \<Rightarrow> int64" where
  "tsc2ns_expr fp s tsc =
     base_ns s + d_to_int64 fp (d_mul fp (d_of_int64 fp (tsc - base_tsc s)) (ns_per_tsc s))"

text \<open>
  The function declares \<open>int64_t ns;\<close> without an initialiser, and the loop body declares
  a second \<open>int64_t ns = ...\<close> of its own, which hides the first and ends with the block.
  \<open>return ns\<close> after the loop names the outer variable, which no statement assigns. Its
  content is whatever the register or stack slot held: the argument \<open>ns_uninit\<close>.

  The model is sequential: no other thread stores to \<open>param_seq_\<close> between the two
  loads, so both read \<open>param_seq s\<close>. The loop may not end, hence the option.
\<close>

partial_function (option) tsc2ns :: "'d fp_ops \<Rightarrow> 'd tscns \<Rightarrow> int64 \<Rightarrow> int64 \<Rightarrow> int64 option" where
  "tsc2ns fp s tsc ns_uninit =
     (let before_seq = param_seq s AND NOT 1;
          ns_inner = tsc2ns_expr fp s tsc;
          after_seq = param_seq s
      in if before_seq \<noteq> after_seq then tsc2ns fp s tsc ns_uninit else Some ns_uninit)"

declare tsc2ns.simps [code]

definition rdns :: "'d fp_ops \<Rightarrow> 'd tscns \<Rightarrow> world \<Rightarrow> int64 \<Rightarrow> int64 option \<times> world" where
  "rdns fp s w ns_uninit = (case rdtsc w of (t, w') \<Rightarrow> (tsc2ns fp s t ns_uninit, w'))"

section \<open>saveParam\<close>

text \<open>
  The stores of \<open>saveParam\<close> in program order, each with the state it leaves.
  \<open>saveParam\<close> itself is the last of these states. The local \<open>seq\<close> is loaded once and
  incremented before each of the two stores to \<open>param_seq_\<close>. The two signal fences
  constrain the compiler only and change no state.
\<close>

datatype store =
  St_base_ns_err | St_next_calibrate_tsc | St_param_seq | St_base_tsc | St_base_ns
  | St_ns_per_tsc | St_calibrate_interval_ns

definition saveParam_trace ::
  "'d fp_ops \<Rightarrow> 'd tscns \<Rightarrow> int64 \<Rightarrow> int64 \<Rightarrow> int64 \<Rightarrow> 'd \<Rightarrow> (store \<times> 'd tscns) list" where
  "saveParam_trace fp s base_tsc' sys_ns base_ns_err' new_ns_per_tsc =
     (let s1 = s\<lparr>base_ns_err := base_ns_err'\<rparr>;
          s2 = s1\<lparr>next_calibrate_tsc := base_tsc' +
                 d_to_int64 fp (d_div fp (d_of_int64 fp (calibrate_interval_ns s1 - 1000)) new_ns_per_tsc)\<rparr>;
          seq = param_seq s2;
          seq1 = seq + 1;
          s3 = s2\<lparr>param_seq := seq1\<rparr>;
          s4 = s3\<lparr>base_tsc := base_tsc'\<rparr>;
          s5 = s4\<lparr>base_ns := sys_ns + base_ns_err'\<rparr>;
          s6 = s5\<lparr>ns_per_tsc := new_ns_per_tsc\<rparr>;
          seq2 = seq1 + 1;
          s7 = s6\<lparr>param_seq := seq2\<rparr>
      in [(St_base_ns_err, s1), (St_next_calibrate_tsc, s2), (St_param_seq, s3),
          (St_base_tsc, s4), (St_base_ns, s5), (St_ns_per_tsc, s6), (St_param_seq, s7)])"

definition saveParam :: "'d fp_ops \<Rightarrow> 'd tscns \<Rightarrow> int64 \<Rightarrow> int64 \<Rightarrow> int64 \<Rightarrow> 'd \<Rightarrow> 'd tscns" where
  "saveParam fp s base_tsc' sys_ns base_ns_err' new_ns_per_tsc =
     snd (last (saveParam_trace fp s base_tsc' sys_ns base_ns_err' new_ns_per_tsc))"

section \<open>calibrate\<close>

text \<open>The two \<open>if\<close> statements that bound \<open>ns_err\<close>, in the order of the source.\<close>

definition clamp_ns_err :: "int64 \<Rightarrow> int64" where
  "clamp_ns_err ns_err =
     (let e1 = (if 1000000 <s ns_err then 1000000 else ns_err)
      in if e1 <s - 1000000 then - 1000000 else e1)"

definition new_ratio :: "'d fp_ops \<Rightarrow> 'd tscns \<Rightarrow> int64 \<Rightarrow> int64 \<Rightarrow> 'd" where
  "new_ratio fp s tsc ns_err =
     d_mul fp (ns_per_tsc s)
       (d_sub fp (d_one fp)
          (d_div fp (d_of_int64 fp (ns_err + ns_err - base_ns_err s))
             (d_mul fp (d_of_int64 fp (tsc - base_tsc s)) (ns_per_tsc s))))"

text \<open>
  \<open>calibrate\<close> returns nothing when its call of \<open>tsc2ns\<close> never returns. \<open>ns_uninit\<close>
  is the content of the uninitialised local of that call.
\<close>

definition calibrate :: "'d fp_ops \<Rightarrow> 'd tscns \<Rightarrow> world \<Rightarrow> int64 \<Rightarrow> ('d tscns \<times> world) option" where
  "calibrate fp s w ns_uninit =
     (case rdtsc w of (now, w1) \<Rightarrow>
        if now <s next_calibrate_tsc s then Some (s, w1)
        else
          (case syncTime w1 of ((tsc, ns), w2) \<Rightarrow>
             (case tsc2ns fp s tsc ns_uninit of
                None \<Rightarrow> None
              | Some predicted \<Rightarrow>
                  (let ns_err = clamp_ns_err (predicted - ns);
                       new_ns_per_tsc = new_ratio fp s tsc ns_err
                   in Some (saveParam fp s tsc ns ns_err new_ns_per_tsc, w2)))))"

section \<open>init\<close>

text \<open>
  \<open>while (rdsysns() < expire_ns) yield();\<close> reads the wall clock until a reading is not
  below \<open>expire_ns\<close>. On a wall clock that never gets there it does not return.
\<close>

partial_function (option) wait_expire :: "world \<Rightarrow> int64 \<Rightarrow> world option" where
  "wait_expire w expire_ns =
     (if fst (rdsysns w) <s expire_ns then wait_expire (snd (rdsysns w)) expire_ns
      else Some (snd (rdsysns w)))"

declare wait_expire.simps [code]

definition init :: "'d fp_ops \<Rightarrow> 'd tscns \<Rightarrow> world \<Rightarrow> int64 \<Rightarrow> int64 \<Rightarrow> ('d tscns \<times> world) option" where
  "init fp s w init_calibrate_ns calibrate_interval_ns' =
     (let s0 = s\<lparr>calibrate_interval_ns := calibrate_interval_ns'\<rparr>
      in case syncTime w of ((base_tsc', base_ns'), w1) \<Rightarrow>
           (let expire_ns = base_ns' + init_calibrate_ns
            in case wait_expire w1 expire_ns of
                 None \<Rightarrow> None
               | Some w2 \<Rightarrow>
                   (case syncTime w2 of ((delayed_tsc, delayed_ns), w3) \<Rightarrow>
                      (let init_ns_per_tsc =
                             d_div fp (d_of_int64 fp (delayed_ns - base_ns'))
                               (d_of_int64 fp (delayed_tsc - base_tsc'))
                       in Some (saveParam fp s0 base_tsc' base_ns' 0 init_ns_per_tsc, w3)))))"

section \<open>An instance of the double arithmetic: IEEE 754 binary64\<close>

text \<open>
  A \<open>double\<close> is a finite value (its sign and its magnitude, a rational that binary64
  represents), an infinity or a NaN. An operation computes the exact rational result
  and rounds it to the nearest representable value, ties to the even significand:
  53 significant bits, least exponent \<open>-1074\<close>, overflow to infinity from \<open>2 ^ 1024\<close>.
\<close>

datatype binary64 = Finite bool rat | Infinity bool | NaN

function bit_length :: "int \<Rightarrow> int" where
  "bit_length n = (if n \<le> 0 then 0 else 1 + bit_length (n div 2))"
  by pat_completeness auto
termination
  by (relation "measure nat") auto

declare bit_length.simps [simp del]

definition pow2 :: "int \<Rightarrow> rat" where
  "pow2 e = (if 0 \<le> e then 2 ^ nat e else 1 / 2 ^ nat (- e))"

text \<open>The exponent \<open>k\<close> with \<open>2 ^ k \<le> a < 2 ^ (k + 1)\<close>, for \<open>a > 0\<close>.\<close>

definition floor_log2 :: "rat \<Rightarrow> int" where
  "floor_log2 a = (if 1 \<le> a then bit_length \<lfloor>a\<rfloor> - 1 else - bit_length (\<lceil>1 / a\<rceil> - 1))"

definition round_half_even :: "rat \<Rightarrow> int" where
  "round_half_even x =
     (let f = \<lfloor>x\<rfloor>; r = x - of_int f
      in if r < 1 / 2 then f else if 1 / 2 < r then f + 1 else if even f then f else f + 1)"

text \<open>Rounding a magnitude; \<open>None\<close> is the overflow.\<close>

definition round_mag :: "rat \<Rightarrow> rat option" where
  "round_mag a =
     (if a = 0 then Some 0
      else (let e = max (floor_log2 a - 52) (- 1074);
                v = of_int (round_half_even (a / pow2 e)) * pow2 e
            in if v < pow2 1024 then Some v else None))"

definition rounded :: "bool \<Rightarrow> rat \<Rightarrow> binary64" where
  "rounded sign a = (case round_mag a of None \<Rightarrow> Infinity sign | Some v \<Rightarrow> Finite sign v)"

fun b64_mul :: "binary64 \<Rightarrow> binary64 \<Rightarrow> binary64" where
  "b64_mul NaN y = NaN"
| "b64_mul x NaN = NaN"
| "b64_mul (Infinity s) (Infinity t) = Infinity (s \<noteq> t)"
| "b64_mul (Infinity s) (Finite t b) = (if b = 0 then NaN else Infinity (s \<noteq> t))"
| "b64_mul (Finite s a) (Infinity t) = (if a = 0 then NaN else Infinity (s \<noteq> t))"
| "b64_mul (Finite s a) (Finite t b) = rounded (s \<noteq> t) (a * b)"

fun b64_div :: "binary64 \<Rightarrow> binary64 \<Rightarrow> binary64" where
  "b64_div NaN y = NaN"
| "b64_div x NaN = NaN"
| "b64_div (Infinity s) (Infinity t) = NaN"
| "b64_div (Infinity s) (Finite t b) = Infinity (s \<noteq> t)"
| "b64_div (Finite s a) (Infinity t) = Finite (s \<noteq> t) 0"
| "b64_div (Finite s a) (Finite t b) =
     (if b = 0 then (if a = 0 then NaN else Infinity (s \<noteq> t)) else rounded (s \<noteq> t) (a / b))"

definition signed_value :: "bool \<Rightarrow> rat \<Rightarrow> rat" where
  "signed_value s a = (if s then - a else a)"

fun b64_sub :: "binary64 \<Rightarrow> binary64 \<Rightarrow> binary64" where
  "b64_sub NaN y = NaN"
| "b64_sub x NaN = NaN"
| "b64_sub (Infinity s) (Infinity t) = (if s = t then NaN else Infinity s)"
| "b64_sub (Infinity s) (Finite t b) = Infinity s"
| "b64_sub (Finite s a) (Infinity t) = Infinity (\<not> t)"
| "b64_sub (Finite s a) (Finite t b) =
     (let x = signed_value s a - signed_value t b
      in if x = 0 then Finite (s \<and> \<not> t) 0 else rounded (x < 0) \<bar>x\<bar>)"

definition b64_of_int64 :: "int64 \<Rightarrow> binary64" where
  "b64_of_int64 i = rounded (sint i < 0) \<bar>of_int (sint i)\<bar>"

text \<open>
  The cast truncates towards zero. Where the truncated value does not fit, or the
  operand is an infinity or a NaN, C++ leaves the cast undefined; the instance returns
  what the x86-64 conversion instruction does, \<open>0x8000000000000000\<close>.
\<close>

fun b64_to_int64 :: "binary64 \<Rightarrow> int64" where
  "b64_to_int64 (Finite s a) =
     (let t = (if s then - \<lfloor>a\<rfloor> else \<lfloor>a\<rfloor>)
      in if - (2 ^ 63) \<le> t \<and> t < 2 ^ 63 then word_of_int t else 0x8000000000000000)"
| "b64_to_int64 (Infinity s) = 0x8000000000000000"
| "b64_to_int64 NaN = 0x8000000000000000"

definition binary64 :: "binary64 fp_ops" where
  "binary64 = \<lparr>d_of_int64 = b64_of_int64, d_one = Finite False 1, d_mul = b64_mul,
     d_div = b64_div, d_sub = b64_sub, d_to_int64 = b64_to_int64\<rparr>"

section \<open>Vocabulary of the statements\<close>

text \<open>A snapshot is stable when the sequence counter is even.\<close>

definition is_stable :: "'d tscns \<Rightarrow> bool" where
  "is_stable s = (param_seq s AND 1 = 0)"

text \<open>
  For a \<open>syncTime\<close> that starts in world \<open>w\<close>: \<open>tsc[i]\<close> is \<open>tsc_reads w i\<close>, \<open>ns[i]\<close> is
  \<open>sys_reads w (i - 1)\<close>, and \<open>delta w i\<close> is the counter delta \<open>tsc[i] - tsc[i - 1]\<close> of
  the pair \<open>i\<close>. \<open>after_reads i j w\<close> is the world after \<open>i\<close> calls of \<open>rdtsc\<close> and \<open>j\<close>
  calls of \<open>rdsysns\<close>.
\<close>

definition delta :: "world \<Rightarrow> nat \<Rightarrow> int64" where
  "delta w i = tsc_reads w i - tsc_reads w (i - 1)"

definition after_reads :: "nat \<Rightarrow> nat \<Rightarrow> world \<Rightarrow> world" where
  "after_reads i j w =
     w\<lparr>tsc_reads := \<lambda>k. tsc_reads w (k + i), sys_reads := \<lambda>k. sys_reads w (k + j)\<rparr>"

text \<open>The value of \<open>best\<close> after the second loop of \<open>syncTime\<close>, unrolled.\<close>

definition best_of :: "world \<Rightarrow> nat" where
  "best_of w =
     (let b2 = (if delta w 2 <s delta w 1 then 2 else 1)
      in if delta w 3 <s delta w b2 then 3 else b2)"

text \<open>
  The stores of a trace, each with the value \<open>param_seq_\<close> has when the store is made.
  \<open>snapshot_stores_odd\<close> says that every store but those to \<open>param_seq_\<close> finds the
  counter odd; \<open>reader_fields_stored_odd\<close> says so of the three fields \<open>tsc2ns\<close> reads,
  and \<open>other_fields_stored_even\<close> says that \<open>base_ns_err_\<close> and \<open>next_calibrate_tsc_\<close>
  are stored while it is even.
\<close>

fun stores_at :: "'d tscns \<Rightarrow> (store \<times> 'd tscns) list \<Rightarrow> (store \<times> uint32) list" where
  "stores_at s [] = []"
| "stores_at s ((f, s') # rest) = (f, param_seq s) # stores_at s' rest"

definition snapshot_stores_odd :: "(store \<times> uint32) list \<Rightarrow> bool" where
  "snapshot_stores_odd ss = list_all (\<lambda>(f, c). f \<noteq> St_param_seq \<longrightarrow> c AND 1 = 1) ss"

definition reader_fields_stored_odd :: "(store \<times> uint32) list \<Rightarrow> bool" where
  "reader_fields_stored_odd ss =
     list_all (\<lambda>(f, c). f \<in> {St_base_tsc, St_base_ns, St_ns_per_tsc} \<longrightarrow> c AND 1 = 1) ss"

definition other_fields_stored_even :: "(store \<times> uint32) list \<Rightarrow> bool" where
  "other_fields_stored_even ss =
     list_all (\<lambda>(f, c). f \<in> {St_base_ns_err, St_next_calibrate_tsc} \<longrightarrow> c AND 1 = 0) ss"

section \<open>Example inputs\<close>

text \<open>Counter readings 1000, 1010, 1050, 1100 around wall-clock readings 500, 600, 700.\<close>

definition w_pair1 :: world where
  "w_pair1 = \<lparr>tsc_reads = (\<lambda>k. [1000, 1010, 1050, 1100] ! k),
              sys_reads = (\<lambda>k. [500, 600, 700] ! k)\<rparr>"

text \<open>
  A stable snapshot: tick 0 is at 100 ns, the ratio is 1 ns per tick, the interval
  106000 ns.
\<close>

definition s_ex :: "binary64 tscns" where
  "s_ex = \<lparr>param_seq = 0, ns_per_tsc = Finite False 1, base_tsc = 0, base_ns = 100,
     calibrate_interval_ns = 106000, base_ns_err = 0, next_calibrate_tsc = 105000\<rparr>"

text \<open>
  A calibration 16,000,000 ticks after the base of \<open>s_ex\<close>: the counter reads 15999990 for the fast-path test, then 15999995, 16000005,
  16000020, 16000040 inside \<open>syncTime\<close>. In \<open>w_ahead\<close> the wall clock is 5 ms behind the
  prediction, in \<open>w_near\<close> 0.5 ms. \<open>s_clamped\<close> and \<open>s_near\<close> are the snapshots that
  \<open>calibrate\<close> commits.
\<close>

definition w_ahead :: world where
  "w_ahead = \<lparr>tsc_reads = (\<lambda>k. [15999990, 15999995, 16000005, 16000020, 16000040] ! k),
              sys_reads = (\<lambda>k. [11000100, 11000200, 11000300] ! k)\<rparr>"

definition w_near :: world where
  "w_near = \<lparr>tsc_reads = (\<lambda>k. [15999990, 15999995, 16000005, 16000020, 16000040] ! k),
             sys_reads = (\<lambda>k. [15500100, 15500200, 15500300] ! k)\<rparr>"

definition s_clamped :: "binary64 tscns" where
  "s_clamped = \<lparr>param_seq = 2, ns_per_tsc = Finite False (7 / 8), base_tsc = 16000000,
     base_ns = 12000100, calibrate_interval_ns = 106000, base_ns_err = 1000000,
     next_calibrate_tsc = 16120000\<rparr>"

definition s_near :: "binary64 tscns" where
  "s_near = \<lparr>param_seq = 2, ns_per_tsc = Finite False (15 / 16), base_tsc = 16000000,
     base_ns = 16000100, calibrate_interval_ns = 106000, base_ns_err = 500000,
     next_calibrate_tsc = 16112000\<rparr>"

text \<open>
  The same calibration with the wall clock 5 ms ahead of the prediction, and the
  snapshot it commits.
\<close>

definition w_behind :: world where
  "w_behind = \<lparr>tsc_reads = (\<lambda>k. [15999990, 15999995, 16000005, 16000020, 16000040] ! k),
               sys_reads = (\<lambda>k. [21000100, 21000200, 21000300] ! k)\<rparr>"

definition s_behind :: "binary64 tscns" where
  "s_behind = \<lparr>param_seq = 2, ns_per_tsc = Finite False (9 / 8), base_tsc = 16000000,
     base_ns = 20000100, calibrate_interval_ns = 106000, base_ns_err = - 1000000,
     next_calibrate_tsc = 16093333\<rparr>"

text \<open>A snapshot whose sequence counter is two below the wrap-around.\<close>

definition s_wrap :: "binary64 tscns" where
  "s_wrap = \<lparr>param_seq = 0xFFFFFFFE, ns_per_tsc = Finite False 1, base_tsc = 0, base_ns = 100,
     calibrate_interval_ns = 106000, base_ns_err = 0, next_calibrate_tsc = 105000\<rparr>"

text \<open>
  A run of \<open>init\<close> on a zero-initialised object: the first \<open>syncTime\<close> reads the counter
  at 1000, 1010, 1050, 1100 and the wall clock at 500, 600, 700; the wait loop reads 800
  and 20000500; the second \<open>syncTime\<close> reads the counter at 40001200, 40001210,
  40001250, 40001300 and the wall clock at 20000600, 20000700, 20000800.
\<close>

definition w_init :: world where
  "w_init = \<lparr>tsc_reads = (\<lambda>k. [1000, 1010, 1050, 1100, 40001200, 40001210, 40001250, 40001300] ! k),
             sys_reads = (\<lambda>k. [500, 600, 700, 800, 20000500, 20000600, 20000700, 20000800] ! k)\<rparr>"

definition s_zero :: "binary64 tscns" where
  "s_zero = \<lparr>param_seq = 0, ns_per_tsc = Finite False 0, base_tsc = 0, base_ns = 0,
     calibrate_interval_ns = 0, base_ns_err = 0, next_calibrate_tsc = 0\<rparr>"

definition s_init :: "binary64 tscns" where
  "s_init = \<lparr>param_seq = 2, ns_per_tsc = Finite False (1 / 2), base_tsc = 1005, base_ns = 500,
     calibrate_interval_ns = 3000000000, base_ns_err = 0, next_calibrate_tsc = 5999999005\<rparr>"

text \<open>
  The run \<open>w_init\<close> with a wall clock that is set back after the wait loop: the second
  \<open>syncTime\<close> reads 5000525, 5000625, 5000725.
\<close>

definition w_back :: world where
  "w_back = \<lparr>tsc_reads = (\<lambda>k. [1000, 1010, 1050, 1100, 40001200, 40001210, 40001250, 40001300] ! k),
             sys_reads = (\<lambda>k. [500, 600, 700, 800, 20000500, 5000525, 5000625, 5000725] ! k)\<rparr>"

definition s_back :: "binary64 tscns" where
  "s_back = \<lparr>param_seq = 2, ns_per_tsc = Finite False (1 / 8), base_tsc = 1005, base_ns = 500,
     calibrate_interval_ns = 3000000000, base_ns_err = 0, next_calibrate_tsc = 23999993005\<rparr>"

text \<open>
  The wall-clock readings of \<open>w_init\<close> without 20000500: the run for an
  \<open>init_calibrate_ns\<close> of \<open>2 ^ 63 - 1\<close>, whose wait loop ends at its first reading.
\<close>

definition w_overflow :: world where
  "w_overflow = \<lparr>tsc_reads = (\<lambda>k. [1000, 1010, 1050, 1100, 40001200, 40001210, 40001250, 40001300] ! k),
                 sys_reads = (\<lambda>k. [500, 600, 700, 800, 20000600, 20000700, 20000800] ! k)\<rparr>"

section \<open>syncTime selects the tightest pair\<close>

lemma sample_indices: "[1..<N + 1] = [1, 2, 3]"
  by (simp add: N_def upt_rec)

lemma best_indices: "[2..<N + 1] = [2, 3]"
  by (simp add: N_def upt_rec)

lemma syncTime_unfold:
  "syncTime w =
     ((signed_drop_bit 1 (tsc_reads w (best_of w) + tsc_reads w (best_of w - 1)),
       sys_reads w (best_of w - 1)),
      after_reads (N + 1) N w)"
  unfolding syncTime_def sample_indices best_indices
  by (simp add: rdtsc_def rdsysns_def sample_step_def best_step_def N_def delta_def best_of_def
      after_reads_def Let_def eval_nat_numeral)

lemma best_of_cases: "best_of w = 1 \<or> best_of w = 2 \<or> best_of w = 3"
  by (simp add: best_of_def Let_def)

lemma best_of_minimal: "i \<in> {1..N} \<Longrightarrow> \<not> delta w i <s delta w (best_of w)"
proof -
  assume "i \<in> {1..N}"
  then have "i = 1 \<or> i = 2 \<or> i = 3" by (auto simp: N_def)
  then show ?thesis
    by (auto simp: best_of_def Let_def word_sless_alt)
qed

lemma best_of_first: "i \<in> {1..<best_of w} \<Longrightarrow> delta w (best_of w) <s delta w i"
proof -
  assume a: "i \<in> {1..<best_of w}"
  from best_of_cases [of w] consider "best_of w = 1" | "best_of w = 2" | "best_of w = 3"
    by blast
  then show ?thesis
  proof cases
    case 1
    with a show ?thesis by simp
  next
    case 2
    with a have i: "i = 1" by simp
    from 2 have "delta w 2 <s delta w 1"
      by (simp add: best_of_def Let_def split: if_splits)
    with 2 i show ?thesis by simp
  next
    case 3
    with a have i: "i = 1 \<or> i = 2" by auto
    from 3 have "delta w 3 <s delta w 1 \<and> delta w 3 <s delta w 2"
      by (auto simp: best_of_def Let_def word_sless_alt split: if_splits)
    with 3 i show ?thesis by auto
  qed
qed

lemma sint_average:
  fixes a b :: int64
  assumes "- (2 ^ 63) \<le> sint a + sint b" "sint a + sint b < 2 ^ 63"
  shows "sint (signed_drop_bit 1 (a + b)) = (sint a + sint b) div 2"
proof -
  have "sint (a + b) = sint a + sint b"
    using assms by (simp add: sint_word_ariths signed_take_bit_int_eq_self)
  then show ?thesis
    by (simp add: sint_signed_drop_bit_eq drop_bit_eq_div)
qed

text \<open>
  Claim C5, as the code has it. \<open>syncTime\<close> reads the counter four times and the wall
  clock three times. The pair it selects is one of the pairs \<open>1..N\<close> (pair 1, the start
  value of \<open>best\<close>, included): no pair has a smaller delta, and every earlier pair has a
  strictly larger one. \<open>tsc_out\<close> is \<open>(tsc[best] + tsc[best - 1]) >> 1\<close>, which is the
  average rounded down whenever the sum fits in an \<open>int64_t\<close>, and \<open>ns_out\<close> is
  \<open>ns[best]\<close>.
\<close>

theorem syncTime_selects_min_pair:
  "\<exists>best\<in>{1..N}.
     fst (syncTime w) =
       (signed_drop_bit 1 (tsc_reads w best + tsc_reads w (best - 1)), sys_reads w (best - 1))
     \<and> (\<forall>i\<in>{1..N}. \<not> delta w i <s delta w best)
     \<and> (\<forall>i\<in>{1..<best}. delta w best <s delta w i)
     \<and> (- (2 ^ 63) \<le> sint (tsc_reads w best) + sint (tsc_reads w (best - 1))
          \<and> sint (tsc_reads w best) + sint (tsc_reads w (best - 1)) < 2 ^ 63
        \<longrightarrow> sint (fst (fst (syncTime w)))
              = (sint (tsc_reads w best) + sint (tsc_reads w (best - 1))) div 2)
     \<and> snd (syncTime w) = after_reads (N + 1) N w"
proof (rule bexI [of _ "best_of w"], intro conjI ballI impI)
  show "best_of w \<in> {1..N}"
    using best_of_cases [of w] by (auto simp: N_def)
  show "fst (syncTime w) =
       (signed_drop_bit 1 (tsc_reads w (best_of w) + tsc_reads w (best_of w - 1)),
        sys_reads w (best_of w - 1))"
    by (simp add: syncTime_unfold)
  show "\<not> delta w i <s delta w (best_of w)" if "i \<in> {1..N}" for i
    using that by (rule best_of_minimal)
  show "delta w (best_of w) <s delta w i" if "i \<in> {1..<best_of w}" for i
    using that by (rule best_of_first)
  show "sint (fst (fst (syncTime w)))
          = (sint (tsc_reads w (best_of w)) + sint (tsc_reads w (best_of w - 1))) div 2"
    if "- (2 ^ 63) \<le> sint (tsc_reads w (best_of w)) + sint (tsc_reads w (best_of w - 1))
          \<and> sint (tsc_reads w (best_of w)) + sint (tsc_reads w (best_of w - 1)) < 2 ^ 63"
    unfolding syncTime_unfold fst_conv using that by (intro sint_average) simp_all
  show "snd (syncTime w) = after_reads (N + 1) N w"
    by (simp add: syncTime_unfold)
qed

lemma best_of_w_pair1: "best_of w_pair1 = 1"
  by (simp add: best_of_def delta_def w_pair1_def)

text \<open>
  Claim C5 as stated selects among the pairs \<open>i = 2..N\<close> only. On the readings of
  \<open>w_pair1\<close> the deltas are 10, 40 and 50: the code returns pair 1, which is the
  average and the wall-clock sample of no pair in \<open>2..N\<close>.
\<close>

theorem syncTime_pair_one_counterexample:
  "fst (syncTime w_pair1) = (1005, 500)
   \<and> \<not> (\<exists>i\<in>{2..N}. fst (syncTime w_pair1) =
         (signed_drop_bit 1 (tsc_reads w_pair1 i + tsc_reads w_pair1 (i - 1)), sys_reads w_pair1 (i - 1)))"
proof -
  have r: "fst (syncTime w_pair1) = (1005, 500)"
    by (simp add: syncTime_unfold best_of_w_pair1) (simp add: w_pair1_def)
  have "sys_reads w_pair1 (i - 1) \<noteq> 500" if "i \<in> {2..N}" for i
  proof -
    from that have "i = 2 \<or> i = 3" by (auto simp: N_def)
    then show ?thesis by (auto simp: w_pair1_def)
  qed
  with r show ?thesis by auto
qed

text \<open>The theorem of C5 at \<open>w_pair1\<close>: the sum fits, the result is pair 1.\<close>

theorem syncTime_selects_min_pair_witness:
  "fst (syncTime w_pair1) = (1005, 500)
   \<and> - (2 ^ 63) \<le> sint (1010 :: int64) + sint (1000 :: int64)
   \<and> sint (1010 :: int64) + sint (1000 :: int64) < 2 ^ 63
   \<and> sint (fst (fst (syncTime w_pair1))) = (1010 + 1000) div 2
   \<and> {1..N} \<noteq> {}"
proof -
  from syncTime_selects_min_pair [of w_pair1] obtain best where
    b: "best \<in> {1..N}" and
    r: "fst (syncTime w_pair1) =
       (signed_drop_bit 1 (tsc_reads w_pair1 best + tsc_reads w_pair1 (best - 1)),
        sys_reads w_pair1 (best - 1))" and
    m: "\<forall>i\<in>{1..N}. \<not> delta w_pair1 i <s delta w_pair1 best"
    by blast
  from b have c: "best = 1 \<or> best = 2 \<or> best = 3" by (auto simp: N_def)
  have "1 \<in> {1..N}" by (simp add: N_def)
  with m have "\<not> delta w_pair1 1 <s delta w_pair1 best" by blast
  with c have "best = 1" by (auto simp: delta_def w_pair1_def)
  with r have "fst (syncTime w_pair1) = (1005, 500)" by (simp add: w_pair1_def)
  then show ?thesis by (simp add: N_def)
qed


section \<open>Evaluating the binary64 instance\<close>

lemma floor_rat_numeral_div: "\<lfloor>(numeral a :: rat) / numeral b\<rfloor> = numeral a div numeral b"
  by (metis floor_divide_of_int_eq of_int_numeral)

lemma ceiling_rat_numeral_div: "\<lceil>(numeral a :: rat) / numeral b\<rceil> = - (- numeral a div numeral b)"
  by (metis ceiling_def floor_divide_of_int_eq of_int_numeral of_int_minus minus_divide_left)

lemma floor_rat_one_div: "\<lfloor>(1 :: rat) / numeral b\<rfloor> = 1 div numeral b"
  by (metis floor_divide_of_int_eq of_int_numeral of_int_1)

lemma bit_length_numeral: "bit_length (numeral n) = 1 + bit_length (numeral n div 2)"
  by (subst bit_length.simps) simp

lemma bit_length_0: "bit_length 0 = 0"
  by (subst bit_length.simps) simp

lemma bit_length_1: "bit_length 1 = 1"
  by (subst bit_length.simps) (simp add: bit_length_0)

lemmas b64_eval = binary64_def b64_of_int64_def rounded_def round_mag_def floor_log2_def
  pow2_def round_half_even_def signed_value_def bit_length_numeral bit_length_0 bit_length_1 Let_def
  floor_rat_numeral_div ceiling_rat_numeral_div floor_rat_one_div

lemma b64_zero_times_finite: "b64_to_int64 (b64_mul (b64_of_int64 0) (Finite sg a)) = 0"
  by (simp add: b64_of_int64_def rounded_def round_mag_def)

section \<open>tsc2ns returns its uninitialised local\<close>

lemma and_not_one_eq: "(x AND - 2 = x) = (x AND 1 = 0)" for x :: uint32
  by (auto simp: bit_eq_iff bit_simps)

lemma tsc2ns_stable: "is_stable s \<Longrightarrow> tsc2ns fp s tsc u = Some u"
  by (subst tsc2ns.simps) (simp add: is_stable_def and_not_one_eq Let_def)

lemma tsc2ns_returns:
  assumes "tsc2ns fp s tsc u = Some p"
  shows "is_stable s \<and> p = u"
proof (rule tsc2ns.raw_induct [where P = "\<lambda>fp s tsc u p. is_stable s \<and> p = u", OF _ assms])
  fix f :: "'a fp_ops \<Rightarrow> 'a tscns \<Rightarrow> int64 \<Rightarrow> int64 \<Rightarrow> int64 option"
    and fp s tsc u p
  assume ih: "\<And>fp s tsc u p. f fp s tsc u = Some p \<Longrightarrow> is_stable s \<and> p = u"
    and body: "(let before_seq = param_seq s AND NOT 1;
          ns_inner = tsc2ns_expr fp s tsc; after_seq = param_seq s
      in if before_seq \<noteq> after_seq then f fp s tsc u else Some u) = Some p"
  show "is_stable s \<and> p = u"
  proof (cases "is_stable s")
    case True
    with body show ?thesis
      by (simp add: is_stable_def and_not_one_eq Let_def)
  next
    case False
    with body have "f fp s tsc u = Some p"
      by (simp add: is_stable_def and_not_one_eq Let_def)
    then show ?thesis by (rule ih)
  qed
qed

lemma tsc2ns_unstable: "\<not> is_stable s \<Longrightarrow> tsc2ns fp s tsc u = None"
  using tsc2ns_returns [of fp s tsc u] by (cases "tsc2ns fp s tsc u") auto

lemma s_ex_stable: "is_stable s_ex"
  by (simp add: is_stable_def s_ex_def)

text \<open>
  Claim C1 at a concrete input. On the stable snapshot \<open>s_ex\<close> (base 0 ticks, 100 ns,
  1 ns per tick) and tick 5 the linear formula gives 105. \<open>tsc2ns\<close> returns its
  uninitialised local: 0 when that is what the slot held.
\<close>

theorem tsc2ns_returns_uninitialised_local:
  "tsc2ns binary64 s_ex 5 0 = Some 0 \<and> tsc2ns_expr binary64 s_ex 5 = 105"
  by (simp add: tsc2ns_stable s_ex_stable) (simp add: tsc2ns_expr_def s_ex_def b64_eval)

text \<open>
  Claim C2 at a concrete input. Two calls on the same snapshot, ticks 10 and 20; the
  first finds 7 in its uninitialised local and the second 3, and these are the results.
\<close>

theorem tsc2ns_not_monotone:
  "ns_per_tsc s_ex = Finite False 1 \<and> (10 :: int64) \<le>s 20
   \<and> tsc2ns binary64 s_ex 10 7 = Some 7 \<and> tsc2ns binary64 s_ex 20 3 = Some 3
   \<and> \<not> (7 :: int64) \<le>s 3"
  by (simp add: tsc2ns_stable s_ex_stable word_sle_eq) (simp add: s_ex_def)


section \<open>calibrate\<close>

lemma rdtsc_eq: "rdtsc w = (tsc_reads w 0, after_reads 1 0 w)"
  by (simp add: rdtsc_def after_reads_def)

lemma rdsysns_eq: "rdsysns w = (sys_reads w 0, after_reads 0 1 w)"
  by (simp add: rdsysns_def after_reads_def)

lemma after_reads_reads [simp]:
  "tsc_reads (after_reads i j w) k = tsc_reads w (k + i)"
  "sys_reads (after_reads i j w) k = sys_reads w (k + j)"
  by (simp_all add: after_reads_def)

lemma after_reads_after_reads:
  "after_reads i j (after_reads i' j' w) = after_reads (i + i') (j + j') w"
  by (simp add: after_reads_def add.assoc)

lemma syncTime_world: "snd (syncTime w) = after_reads 4 3 w"
  by (simp add: syncTime_unfold N_def)

lemma saveParam_fields:
  "base_tsc (saveParam fp s bt ns e r) = bt"
  "base_ns (saveParam fp s bt ns e r) = ns + e"
  "base_ns_err (saveParam fp s bt ns e r) = e"
  "ns_per_tsc (saveParam fp s bt ns e r) = r"
  "calibrate_interval_ns (saveParam fp s bt ns e r) = calibrate_interval_ns s"
  "next_calibrate_tsc (saveParam fp s bt ns e r) =
     bt + d_to_int64 fp (d_div fp (d_of_int64 fp (calibrate_interval_ns s - 1000)) r)"
  "param_seq (saveParam fp s bt ns e r) = param_seq s + 2"
  by (simp_all add: saveParam_def saveParam_trace_def Let_def)

lemma clamp_ns_err_sint:
  "sint (clamp_ns_err x) = max (- 1000000) (min 1000000 (sint x))"
  by (simp add: clamp_ns_err_def Let_def word_sless_alt)

lemma clamp_ns_err_cases:
  "1000000 < sint x \<Longrightarrow> clamp_ns_err x = 1000000"
  "sint x < - 1000000 \<Longrightarrow> clamp_ns_err x = - 1000000"
  "- 1000000 \<le> sint x \<Longrightarrow> sint x \<le> 1000000 \<Longrightarrow> clamp_ns_err x = x"
  by (simp_all add: clamp_ns_err_def Let_def word_sless_alt)

lemma calibrate_fast:
  "tsc_reads w 0 <s next_calibrate_tsc s \<Longrightarrow> calibrate fp s w u = Some (s, after_reads 1 0 w)"
  by (simp add: calibrate_def rdtsc_eq)

lemma calibrate_slow:
  assumes "\<not> tsc_reads w 0 <s next_calibrate_tsc s"
    and "syncTime (after_reads 1 0 w) = ((tsc, ns), w2)"
    and "tsc2ns fp s tsc u = Some p"
  shows "calibrate fp s w u =
     Some (saveParam fp s tsc ns (clamp_ns_err (p - ns))
             (new_ratio fp s tsc (clamp_ns_err (p - ns))), w2)"
  using assms by (simp add: calibrate_def rdtsc_eq Let_def)

text \<open>
  Claim C4. On the slow path, with \<open>p\<close> the value \<open>tsc2ns(tsc)\<close> returned and \<open>ns\<close>
  the wall-clock sample, the committed \<open>base_ns_err_\<close> is the raw error \<open>p - ns\<close> (the
  \<open>int64_t\<close> difference) clamped to \<open>[-1000000, 1000000]\<close>: exactly one of the bounds
  when the raw error is beyond it. The same value is added to \<open>ns\<close> for \<open>base_ns_\<close>
  and enters the ratio correction.
\<close>

theorem calibrate_clamps_error:
  assumes "\<not> tsc_reads w 0 <s next_calibrate_tsc s"
    and "syncTime (after_reads 1 0 w) = ((tsc, ns), w2)"
    and "tsc2ns fp s tsc u = Some p"
  shows "\<exists>s'. calibrate fp s w u = Some (s', w2)
    \<and> sint (base_ns_err s') = max (- 1000000) (min 1000000 (sint (p - ns)))
    \<and> (1000000 < sint (p - ns) \<longrightarrow> base_ns_err s' = 1000000)
    \<and> (sint (p - ns) < - 1000000 \<longrightarrow> base_ns_err s' = - 1000000)
    \<and> (- 1000000 \<le> sint (p - ns) \<and> sint (p - ns) \<le> 1000000 \<longrightarrow> base_ns_err s' = p - ns)
    \<and> base_ns s' = ns + base_ns_err s'
    \<and> ns_per_tsc s' = new_ratio fp s tsc (base_ns_err s')"
  unfolding calibrate_slow [OF assms]
  by (simp add: saveParam_fields clamp_ns_err_sint clamp_ns_err_cases)


text \<open>
  Claim C7. On the slow path the committed snapshot has \<open>base_tsc_\<close> the sampled
  counter value; \<open>base_ns_err_\<close> the clamped error, that is the raw error \<open>p - ns\<close>
  brought into \<open>[-1000000, 1000000]\<close>; \<open>base_ns_\<close> the sampled wall-clock value plus
  that clamped error; the ratio computed from it; and \<open>next_calibrate_tsc_\<close> recomputed
  as \<open>base_tsc + (int64_t)((calibrate_interval_ns_ - 1000) / new_ns_per_tsc)\<close> from the
  stored interval, which the commit leaves as it was.
\<close>

theorem calibrate_commits:
  assumes "\<not> tsc_reads w 0 <s next_calibrate_tsc s"
    and "syncTime (after_reads 1 0 w) = ((tsc, ns), w2)"
    and "tsc2ns fp s tsc u = Some p"
  shows "\<exists>s'. calibrate fp s w u = Some (s', w2)
    \<and> base_tsc s' = tsc
    \<and> sint (base_ns_err s') = max (- 1000000) (min 1000000 (sint (p - ns)))
    \<and> base_ns s' = ns + base_ns_err s'
    \<and> ns_per_tsc s' = new_ratio fp s tsc (base_ns_err s')
    \<and> next_calibrate_tsc s' =
        tsc + d_to_int64 fp (d_div fp (d_of_int64 fp (calibrate_interval_ns s - 1000)) (ns_per_tsc s'))
    \<and> calibrate_interval_ns s' = calibrate_interval_ns s"
  unfolding calibrate_slow [OF assms]
  by (simp add: saveParam_fields clamp_ns_err_sint)

lemma sint_sub_million:
  fixes x :: int64
  assumes "- (2 ^ 63) + 1000000 \<le> sint x"
  shows "sint (x - 1000000) = sint x - 1000000"
proof -
  have "sint x < 2 ^ 63" using sint_lt [of x] by simp
  with assms show ?thesis
    by (simp add: sint_word_ariths signed_take_bit_int_eq_self)
qed

text \<open>
  Claim C3, amended. Take a slow-path \<open>calibrate\<close> in which \<open>tsc2ns(tsc)\<close> yields the
  value of the previous snapshot's formula at the sampled tick, and whose raw error
  (that value minus \<open>ns\<close>, not wrapping) is at most 1000000. Then, \<open>0 * ns_per_tsc_\<close>
  casting to 0 as it does for every finite ratio, the new snapshot's formula at the new
  base tick is not below the previous snapshot's formula at that tick, and equals it
  when the raw error is at least -1000000 too.
\<close>

theorem calibrate_no_backward_step_at_commit:
  assumes "\<not> tsc_reads w 0 <s next_calibrate_tsc s"
    and "syncTime (after_reads 1 0 w) = ((tsc, ns), w2)"
    and "tsc2ns fp s tsc u = Some (tsc2ns_expr fp s tsc)"
    and "sint (tsc2ns_expr fp s tsc - ns) = sint (tsc2ns_expr fp s tsc) - sint ns"
    and "sint (tsc2ns_expr fp s tsc - ns) \<le> 1000000"
  shows "\<exists>s'. calibrate fp s w u = Some (s', w2)
    \<and> base_tsc s' = tsc
    \<and> (d_to_int64 fp (d_mul fp (d_of_int64 fp 0) (ns_per_tsc s')) = 0 \<longrightarrow>
          tsc2ns_expr fp s tsc \<le>s tsc2ns_expr fp s' tsc
          \<and> (- 1000000 \<le> sint (tsc2ns_expr fp s tsc - ns) \<longrightarrow>
                tsc2ns_expr fp s' tsc = tsc2ns_expr fp s tsc))"
proof -
  let ?p = "tsc2ns_expr fp s tsc"
  let ?s' = "saveParam fp s tsc ns (clamp_ns_err (?p - ns)) (new_ratio fp s tsc (clamp_ns_err (?p - ns)))"
  have c: "calibrate fp s w u = Some (?s', w2)"
    by (rule calibrate_slow [OF assms(1-3)])
  have at_base: "tsc2ns_expr fp ?s' tsc = ns + clamp_ns_err (?p - ns)"
    if "d_to_int64 fp (d_mul fp (d_of_int64 fp 0) (ns_per_tsc ?s')) = 0"
    using that by (simp add: tsc2ns_expr_def saveParam_fields)
  have same: "ns + clamp_ns_err (?p - ns) = ?p" if "- 1000000 \<le> sint (?p - ns)"
    using that assms(5) by (simp add: clamp_ns_err_cases)
  have above: "?p \<le>s ns + clamp_ns_err (?p - ns)"
  proof (cases "- 1000000 \<le> sint (?p - ns)")
    case True
    then show ?thesis by (simp add: same)
  next
    case False
    then have low: "sint (?p - ns) < - 1000000" by simp
    then have e: "clamp_ns_err (?p - ns) = - 1000000"
      by (rule clamp_ns_err_cases)
    have "- (2 ^ 63) \<le> sint ?p" using sint_ge [of ?p] by simp
    with low assms(4) have "- (2 ^ 63) + 1000000 \<le> sint ns" by simp
    then have "sint (ns - 1000000) = sint ns - 1000000" by (rule sint_sub_million)
    with low assms(4) have "sint ?p \<le> sint (ns - 1000000)" by simp
    then show ?thesis by (simp add: e word_sle_eq)
  qed
  from c at_base same above show ?thesis
    by (intro exI [of _ ?s']) (simp add: saveParam_fields)
qed

lemma sync_w_ahead:
  "syncTime (after_reads 1 0 w_ahead) = ((16000000, 11000100), after_reads 5 3 w_ahead)"
proof -
  have "best_of (after_reads 1 0 w_ahead) = 1"
    by (simp add: best_of_def delta_def w_ahead_def)
  then show ?thesis
    by (simp add: syncTime_unfold N_def after_reads_after_reads) (simp add: w_ahead_def)
qed

lemma sync_w_near:
  "syncTime (after_reads 1 0 w_near) = ((16000000, 15500100), after_reads 5 3 w_near)"
proof -
  have "best_of (after_reads 1 0 w_near) = 1"
    by (simp add: best_of_def delta_def w_near_def)
  then show ?thesis
    by (simp add: syncTime_unfold N_def after_reads_after_reads) (simp add: w_near_def)
qed

lemma slow_w_ahead: "\<not> tsc_reads w_ahead 0 <s next_calibrate_tsc s_ex"
  by (simp add: w_ahead_def s_ex_def word_sless_alt)

lemma slow_w_near: "\<not> tsc_reads w_near 0 <s next_calibrate_tsc s_ex"
  by (simp add: w_near_def s_ex_def word_sless_alt)

lemma predicted_s_ex: "tsc2ns binary64 s_ex 16000000 16000100 = Some 16000100"
  by (simp add: tsc2ns_stable s_ex_stable)

lemma calibrate_w_ahead:
  "calibrate binary64 s_ex w_ahead 16000100 = Some (s_clamped, after_reads 5 3 w_ahead)"
proof -
  have e: "clamp_ns_err 5000000 = 1000000"
    by (simp add: clamp_ns_err_def)
  have r: "new_ratio binary64 s_ex 16000000 1000000 = Finite False (7 / 8)"
    by (simp add: new_ratio_def s_ex_def b64_eval)
  have n: "b64_to_int64 (b64_div (b64_of_int64 (106000 - 1000)) (Finite False (7 / 8))) = 120000"
    by (simp add: b64_eval)
  have "saveParam binary64 s_ex 16000000 11000100 1000000 (Finite False (7 / 8)) = s_clamped"
    using n by (simp add: saveParam_def saveParam_trace_def Let_def s_ex_def s_clamped_def binary64_def)
  then show ?thesis
    by (simp add: calibrate_slow [OF slow_w_ahead sync_w_ahead predicted_s_ex] e r)
qed

lemma calibrate_w_near:
  "calibrate binary64 s_ex w_near 16000100 = Some (s_near, after_reads 5 3 w_near)"
proof -
  have e: "clamp_ns_err 500000 = 500000"
    by (simp add: clamp_ns_err_def)
  have r: "new_ratio binary64 s_ex 16000000 500000 = Finite False (15 / 16)"
    by (simp add: new_ratio_def s_ex_def b64_eval)
  have n: "b64_to_int64 (b64_div (b64_of_int64 (106000 - 1000)) (Finite False (15 / 16))) = 112000"
    by (simp add: b64_eval)
  have "saveParam binary64 s_ex 16000000 15500100 500000 (Finite False (15 / 16)) = s_near"
    using n by (simp add: saveParam_def saveParam_trace_def Let_def s_ex_def s_near_def binary64_def)
  then show ?thesis
    by (simp add: calibrate_slow [OF slow_w_near sync_w_near predicted_s_ex] e r)
qed

lemma sync_w_behind:
  "syncTime (after_reads 1 0 w_behind) = ((16000000, 21000100), after_reads 5 3 w_behind)"
proof -
  have "best_of (after_reads 1 0 w_behind) = 1"
    by (simp add: best_of_def delta_def w_behind_def)
  then show ?thesis
    by (simp add: syncTime_unfold N_def after_reads_after_reads) (simp add: w_behind_def)
qed

lemma slow_w_behind: "\<not> tsc_reads w_behind 0 <s next_calibrate_tsc s_ex"
  by (simp add: w_behind_def s_ex_def word_sless_alt)

lemma calibrate_w_behind:
  "calibrate binary64 s_ex w_behind 16000100 = Some (s_behind, after_reads 5 3 w_behind)"
proof -
  have e: "clamp_ns_err (- 5000000) = - 1000000"
    by (simp add: clamp_ns_err_def)
  have r: "new_ratio binary64 s_ex 16000000 (- 1000000) = Finite False (9 / 8)"
    by (simp add: new_ratio_def s_ex_def b64_eval)
  have n: "b64_to_int64 (b64_div (b64_of_int64 (106000 - 1000)) (Finite False (9 / 8))) = 93333"
    by (simp add: b64_eval)
  have "saveParam binary64 s_ex 16000000 21000100 (- 1000000) (Finite False (9 / 8)) = s_behind"
    using n by (simp add: saveParam_def saveParam_trace_def Let_def s_ex_def s_behind_def binary64_def)
  then show ?thesis
    by (simp add: calibrate_slow [OF slow_w_behind sync_w_behind predicted_s_ex] e r)
qed

lemma formula_s_ex: "tsc2ns_expr binary64 s_ex 16000000 = 16000100"
  by (simp add: tsc2ns_expr_def s_ex_def b64_eval)

lemma predicted_is_formula:
  "tsc2ns binary64 s_ex 16000000 16000100 = Some (tsc2ns_expr binary64 s_ex 16000000)"
  by (simp add: predicted_s_ex formula_s_ex)

text \<open>
  Claim C3 as stated fails. \<open>tsc2ns\<close> returns 16000100 for the sampled tick
  16000000, which is also what the formula of \<open>s_ex\<close> gives there.
  In \<open>w_ahead\<close> the raw error is 5000000 and is clamped: the new snapshot maps its base
  tick 16000000 to 12000100, below 16000100.
  In \<open>w_near\<close> the raw error 500000 is not clamped and the ratio is reduced to 15/16:
  at tick 16000016, after the new base, the new snapshot gives 16000115 and the old one
  16000116.
\<close>

theorem calibrate_backward_jump_counterexample:
  "calibrate binary64 s_ex w_ahead 16000100 = Some (s_clamped, after_reads 5 3 w_ahead)
   \<and> tsc2ns binary64 s_ex 16000000 16000100 = Some 16000100
   \<and> base_tsc s_clamped = 16000000
   \<and> tsc2ns_expr binary64 s_ex 16000000 = 16000100
   \<and> tsc2ns_expr binary64 s_clamped 16000000 = 12000100
   \<and> calibrate binary64 s_ex w_near 16000100 = Some (s_near, after_reads 5 3 w_near)
   \<and> base_tsc s_near = 16000000
   \<and> tsc2ns_expr binary64 s_ex 16000016 = 16000116
   \<and> tsc2ns_expr binary64 s_near 16000016 = 16000115"
proof -
  have "tsc2ns_expr binary64 s_ex 16000000 = 16000100"
    by (simp add: tsc2ns_expr_def s_ex_def b64_eval)
  moreover have "tsc2ns_expr binary64 s_clamped 16000000 = 12000100"
    by (simp add: tsc2ns_expr_def s_clamped_def b64_eval)
  moreover have "tsc2ns_expr binary64 s_ex 16000016 = 16000116"
    by (simp add: tsc2ns_expr_def s_ex_def b64_eval)
  moreover have "tsc2ns_expr binary64 s_near 16000016 = 16000115"
    by (simp add: tsc2ns_expr_def s_near_def b64_eval)
  moreover have "base_tsc s_clamped = 16000000" "base_tsc s_near = 16000000"
    by (simp_all add: s_clamped_def s_near_def)
  ultimately show ?thesis
    using calibrate_w_ahead calibrate_w_near predicted_s_ex by simp
qed

text \<open>The theorem of C4 at \<open>w_ahead\<close>: the raw error 5000000 is committed as 1000000.\<close>

theorem calibrate_clamps_error_witness:
  "calibrate binary64 s_ex w_ahead 16000100 = Some (s_clamped, after_reads 5 3 w_ahead)
   \<and> sint (16000100 - 11000100 :: int64) = 5000000
   \<and> base_ns_err s_clamped = 1000000
   \<and> base_ns s_clamped = 11000100 + 1000000
   \<and> ns_per_tsc s_clamped = new_ratio binary64 s_ex 16000000 1000000"
proof -
  from calibrate_clamps_error [OF slow_w_ahead sync_w_ahead predicted_s_ex]
  obtain s' where c: "calibrate binary64 s_ex w_ahead 16000100 = Some (s', after_reads 5 3 w_ahead)"
    and e: "1000000 < sint (16000100 - 11000100 :: int64) \<longrightarrow> base_ns_err s' = 1000000"
    and b: "base_ns s' = 11000100 + base_ns_err s'"
    and r: "ns_per_tsc s' = new_ratio binary64 s_ex 16000000 (base_ns_err s')"
    by blast
  from c have s': "s' = s_clamped" by (simp add: calibrate_w_ahead)
  from e have "base_ns_err s' = 1000000" by simp
  with b r c show ?thesis unfolding s' by simp
qed


text \<open>
  The theorem of C7 at \<open>w_ahead\<close> and at \<open>w_behind\<close>: raw errors of 5000000 and
  -5000000 are committed as 1000000 and -1000000.
\<close>

theorem calibrate_commits_witness:
  "calibrate binary64 s_ex w_ahead 16000100 = Some (s_clamped, after_reads 5 3 w_ahead)
   \<and> sint (16000100 - 11000100 :: int64) = 5000000
   \<and> base_tsc s_clamped = 16000000
   \<and> base_ns_err s_clamped = 1000000
   \<and> base_ns s_clamped = 11000100 + 1000000
   \<and> next_calibrate_tsc s_clamped = 16000000 + 120000
   \<and> calibrate binary64 s_ex w_behind 16000100 = Some (s_behind, after_reads 5 3 w_behind)
   \<and> sint (16000100 - 21000100 :: int64) = - 5000000
   \<and> base_tsc s_behind = 16000000
   \<and> base_ns_err s_behind = - 1000000
   \<and> base_ns s_behind = 21000100 - 1000000
   \<and> next_calibrate_tsc s_behind = 16000000 + 93333"
proof -
  from calibrate_commits [OF slow_w_ahead sync_w_ahead predicted_s_ex]
  obtain s' where c: "calibrate binary64 s_ex w_ahead 16000100 = Some (s', after_reads 5 3 w_ahead)"
    and e: "sint (base_ns_err s') = max (- 1000000) (min 1000000 (sint (16000100 - 11000100 :: int64)))"
    and b: "base_ns s' = 11000100 + base_ns_err s'"
    by blast
  from c have s': "s' = s_clamped" by (simp add: calibrate_w_ahead)
  from e have "sint (base_ns_err s_clamped) = sint (1000000 :: int64)" unfolding s' by simp
  then have e1: "base_ns_err s_clamped = 1000000" by (rule signed_word_eqI)
  with b have b1: "base_ns s_clamped = 11000100 + 1000000" unfolding s' by simp
  from calibrate_commits [OF slow_w_behind sync_w_behind predicted_s_ex]
  obtain t' where d: "calibrate binary64 s_ex w_behind 16000100 = Some (t', after_reads 5 3 w_behind)"
    and f: "sint (base_ns_err t') = max (- 1000000) (min 1000000 (sint (16000100 - 21000100 :: int64)))"
    and g: "base_ns t' = 21000100 + base_ns_err t'"
    by blast
  from d have t': "t' = s_behind" by (simp add: calibrate_w_behind)
  from f have "sint (base_ns_err s_behind) = sint (- 1000000 :: int64)" unfolding t' by simp
  then have f1: "base_ns_err s_behind = - 1000000" by (rule signed_word_eqI)
  with g have g1: "base_ns s_behind = 21000100 - 1000000" unfolding t' by simp
  have "base_tsc s_clamped = 16000000" "next_calibrate_tsc s_clamped = 16000000 + 120000"
    "base_tsc s_behind = 16000000" "next_calibrate_tsc s_behind = 16000000 + 93333"
    by (simp_all add: s_clamped_def s_behind_def)
  with e1 b1 f1 g1 calibrate_w_ahead calibrate_w_behind show ?thesis by simp
qed

text \<open>
  The amended C3 at \<open>w_near\<close>, where the raw error 500000 is kept and both snapshots
  map tick 16000000 to 16000100, and at \<open>w_behind\<close>, where the raw error -5000000 is
  clamped and the new snapshot maps that tick to 20000100.
\<close>

theorem calibrate_no_backward_step_at_commit_witness:
  "calibrate binary64 s_ex w_near 16000100 = Some (s_near, after_reads 5 3 w_near)
   \<and> tsc2ns binary64 s_ex 16000000 16000100 = Some (tsc2ns_expr binary64 s_ex 16000000)
   \<and> tsc2ns_expr binary64 s_ex 16000000 = 16000100
   \<and> sint (16000100 - 15500100 :: int64) = 500000
   \<and> base_tsc s_near = 16000000
   \<and> tsc2ns_expr binary64 s_near 16000000 = tsc2ns_expr binary64 s_ex 16000000
   \<and> calibrate binary64 s_ex w_behind 16000100 = Some (s_behind, after_reads 5 3 w_behind)
   \<and> sint (16000100 - 21000100 :: int64) = - 5000000
   \<and> base_tsc s_behind = 16000000
   \<and> tsc2ns_expr binary64 s_ex 16000000 \<le>s tsc2ns_expr binary64 s_behind 16000000
   \<and> tsc2ns_expr binary64 s_behind 16000000 = 20000100"
proof -
  have h1: "sint (tsc2ns_expr binary64 s_ex 16000000 - 15500100)
      = sint (tsc2ns_expr binary64 s_ex 16000000) - sint (15500100 :: int64)"
    "sint (tsc2ns_expr binary64 s_ex 16000000 - 15500100) \<le> 1000000"
    by (simp_all add: formula_s_ex)
  from calibrate_no_backward_step_at_commit [OF slow_w_near sync_w_near predicted_is_formula h1]
  obtain s' where c: "calibrate binary64 s_ex w_near 16000100 = Some (s', after_reads 5 3 w_near)"
    and z: "d_to_int64 binary64 (d_mul binary64 (d_of_int64 binary64 0) (ns_per_tsc s')) = 0 \<longrightarrow>
          tsc2ns_expr binary64 s_ex 16000000 \<le>s tsc2ns_expr binary64 s' 16000000
          \<and> (- 1000000 \<le> sint (tsc2ns_expr binary64 s_ex 16000000 - 15500100) \<longrightarrow>
                tsc2ns_expr binary64 s' 16000000 = tsc2ns_expr binary64 s_ex 16000000)"
    by blast
  from c have s': "s' = s_near" by (simp add: calibrate_w_near)
  have z0: "d_to_int64 binary64 (d_mul binary64 (d_of_int64 binary64 0) (ns_per_tsc s_near)) = 0"
    by (simp add: binary64_def s_near_def b64_zero_times_finite)
  have "- 1000000 \<le> sint (tsc2ns_expr binary64 s_ex 16000000 - 15500100)"
    by (simp add: formula_s_ex)
  with z z0 have near: "tsc2ns_expr binary64 s_near 16000000 = tsc2ns_expr binary64 s_ex 16000000"
    unfolding s' by simp
  have h2: "sint (tsc2ns_expr binary64 s_ex 16000000 - 21000100)
      = sint (tsc2ns_expr binary64 s_ex 16000000) - sint (21000100 :: int64)"
    "sint (tsc2ns_expr binary64 s_ex 16000000 - 21000100) \<le> 1000000"
    by (simp_all add: formula_s_ex)
  from calibrate_no_backward_step_at_commit [OF slow_w_behind sync_w_behind predicted_is_formula h2]
  obtain t' where d: "calibrate binary64 s_ex w_behind 16000100 = Some (t', after_reads 5 3 w_behind)"
    and y: "d_to_int64 binary64 (d_mul binary64 (d_of_int64 binary64 0) (ns_per_tsc t')) = 0 \<longrightarrow>
          tsc2ns_expr binary64 s_ex 16000000 \<le>s tsc2ns_expr binary64 t' 16000000"
    by blast
  from d have t': "t' = s_behind" by (simp add: calibrate_w_behind)
  have "d_to_int64 binary64 (d_mul binary64 (d_of_int64 binary64 0) (ns_per_tsc s_behind)) = 0"
    by (simp add: binary64_def s_behind_def b64_zero_times_finite)
  with y have behind: "tsc2ns_expr binary64 s_ex 16000000 \<le>s tsc2ns_expr binary64 s_behind 16000000"
    unfolding t' by simp
  have "tsc2ns_expr binary64 s_behind 16000000 = 20000100"
    by (simp add: tsc2ns_expr_def s_behind_def b64_eval)
  moreover have "base_tsc s_near = 16000000" "base_tsc s_behind = 16000000"
    by (simp_all add: s_near_def s_behind_def)
  ultimately show ?thesis
    using near behind calibrate_w_near calibrate_w_behind predicted_is_formula formula_s_ex
    by simp
qed


section \<open>saveParam: the order of the stores and the sequence counter\<close>

lemma seq_odd_after_increment: "x AND 1 = 0 \<Longrightarrow> (x + 1) AND 1 = 1" for x :: uint32
  by (simp add: and_one_eq flip: even_iff_mod_2_eq_zero odd_iff_mod_2_eq_one)

lemma seq_even_after_two: "x AND 1 = 0 \<Longrightarrow> (x + 2) AND 1 = 0" for x :: uint32
  by (simp add: and_one_eq flip: even_iff_mod_2_eq_zero odd_iff_mod_2_eq_one)

lemma saveParam_stores_at:
  "stores_at s (saveParam_trace fp s bt ns e r) =
     [(St_base_ns_err, param_seq s), (St_next_calibrate_tsc, param_seq s),
      (St_param_seq, param_seq s), (St_base_tsc, param_seq s + 1),
      (St_base_ns, param_seq s + 1), (St_ns_per_tsc, param_seq s + 1),
      (St_param_seq, param_seq s + 1)]"
  by (simp add: saveParam_trace_def Let_def)

text \<open>
  Claim C9, amended. In a commit that starts on a stable snapshot, the stores to
  \<open>base_tsc_\<close>, \<open>base_ns_\<close> and \<open>ns_per_tsc_\<close>, the fields \<open>tsc2ns\<close> reads, are made
  while the sequence counter is odd; \<open>base_ns_err_\<close> and \<open>next_calibrate_tsc_\<close> are
  stored before the first increment, while it is even.
\<close>

theorem saveParam_guards_reader_fields:
  "is_stable s \<Longrightarrow>
     reader_fields_stored_odd (stores_at s (saveParam_trace fp s bt ns e r))
     \<and> other_fields_stored_even (stores_at s (saveParam_trace fp s bt ns e r))"
  by (simp add: saveParam_stores_at reader_fields_stored_odd_def other_fields_stored_even_def
      is_stable_def seq_odd_after_increment)

text \<open>
  Claim C9 as stated fails: the first store of \<open>saveParam\<close> is to \<open>base_ns_err_\<close>,
  and it finds the counter at 0.
\<close>

theorem saveParam_early_store_counterexample:
  "is_stable s_ex
   \<and> \<not> snapshot_stores_odd
        (stores_at s_ex (saveParam_trace binary64 s_ex 16000000 11000100 1000000 (Finite False (7 / 8))))
   \<and> hd (stores_at s_ex (saveParam_trace binary64 s_ex 16000000 11000100 1000000 (Finite False (7 / 8))))
       = (St_base_ns_err, 0)"
  by (simp add: saveParam_stores_at snapshot_stores_odd_def s_ex_stable) (simp add: s_ex_def)

text \<open>The amended C9 at \<open>s_ex\<close>.\<close>

theorem saveParam_guards_reader_fields_witness:
  "is_stable s_ex
   \<and> reader_fields_stored_odd
        (stores_at s_ex (saveParam_trace binary64 s_ex 16000000 11000100 1000000 (Finite False (7 / 8))))
   \<and> other_fields_stored_even
        (stores_at s_ex (saveParam_trace binary64 s_ex 16000000 11000100 1000000 (Finite False (7 / 8))))"
  using saveParam_guards_reader_fields [OF s_ex_stable] s_ex_stable by simp

text \<open>
  Claim C10, amended. \<open>saveParam\<close> adds 2 to \<open>param_seq_\<close> in \<open>uint32_t\<close> arithmetic:
  an even counter stays even, and the counter grows by exactly 2 unless it is within 2
  of \<open>2 ^ 32\<close>.
\<close>

theorem saveParam_adds_two:
  "param_seq (saveParam fp s bt ns e r) = param_seq s + 2
   \<and> (is_stable s \<longrightarrow> is_stable (saveParam fp s bt ns e r))
   \<and> (unat (param_seq s) < 2 ^ 32 - 2 \<longrightarrow>
        unat (param_seq (saveParam fp s bt ns e r)) = unat (param_seq s) + 2)"
proof -
  have "unat (param_seq s + 2) = unat (param_seq s) + 2" if "unat (param_seq s) < 2 ^ 32 - 2"
    using that by (simp add: unat_word_ariths)
  then show ?thesis
    by (simp add: saveParam_fields is_stable_def seq_even_after_two)
qed

text \<open>
  Claim C10 as stated fails where it says the counter never decreases: from
  \<open>4294967294\<close> the commit takes it to 0.
\<close>

theorem saveParam_wraps_counterexample:
  "is_stable s_wrap
   \<and> param_seq s_wrap = 4294967294
   \<and> param_seq (saveParam binary64 s_wrap 16000000 11000100 1000000 (Finite False (7 / 8))) = 0
   \<and> param_seq (saveParam binary64 s_wrap 16000000 11000100 1000000 (Finite False (7 / 8)))
       < param_seq s_wrap"
  by (simp add: saveParam_fields is_stable_def s_wrap_def)

text \<open>The amended C10 at \<open>s_ex\<close>: from 0 to 2.\<close>

theorem saveParam_adds_two_witness:
  "is_stable s_ex \<and> unat (param_seq s_ex) < 2 ^ 32 - 2
   \<and> is_stable (saveParam binary64 s_ex 16000000 11000100 1000000 (Finite False (7 / 8)))
   \<and> unat (param_seq (saveParam binary64 s_ex 16000000 11000100 1000000 (Finite False (7 / 8)))) = 2"
proof -
  have u: "unat (param_seq s_ex) < 2 ^ 32 - 2" by (simp add: s_ex_def)
  with saveParam_adds_two [of binary64 s_ex 16000000 11000100 1000000 "Finite False (7 / 8)"]
    s_ex_stable
  show ?thesis by (simp add: s_ex_def)
qed

section \<open>init\<close>

lemma wait_expire_returns:
  "\<not> sys_reads w k <s e \<Longrightarrow> wait_expire w e \<noteq> None"
proof (induction k arbitrary: w)
  case 0
  then show ?case
    by (subst wait_expire.simps) (simp add: rdsysns_eq)
next
  case (Suc k)
  show ?case
  proof (cases "sys_reads w 0 <s e")
    case True
    from Suc.prems have "\<not> sys_reads (after_reads 0 1 w) k <s e" by simp
    then have "wait_expire (after_reads 0 1 w) e \<noteq> None" by (rule Suc.IH)
    with True show ?thesis
      by (subst wait_expire.simps) (simp add: rdsysns_eq)
  next
    case False
    then show ?thesis
      by (subst wait_expire.simps) (simp add: rdsysns_eq)
  qed
qed

lemma wait_expire_Some:
  assumes "wait_expire w e = Some w'"
  shows "\<exists>k. w' = after_reads 0 (Suc k) w \<and> \<not> sys_reads w k <s e \<and> (\<forall>j<k. sys_reads w j <s e)"
proof (rule wait_expire.raw_induct
    [where P = "\<lambda>w e w'. \<exists>k. w' = after_reads 0 (Suc k) w \<and> \<not> sys_reads w k <s e
                   \<and> (\<forall>j<k. sys_reads w j <s e)", OF _ assms])
  fix f :: "world \<Rightarrow> int64 \<Rightarrow> world option" and w e w'
  assume ih: "\<And>w e w'. f w e = Some w' \<Longrightarrow>
      \<exists>k. w' = after_reads 0 (Suc k) w \<and> \<not> sys_reads w k <s e \<and> (\<forall>j<k. sys_reads w j <s e)"
    and body: "(if fst (rdsysns w) <s e then f (snd (rdsysns w)) e else Some (snd (rdsysns w))) = Some w'"
  show "\<exists>k. w' = after_reads 0 (Suc k) w \<and> \<not> sys_reads w k <s e \<and> (\<forall>j<k. sys_reads w j <s e)"
  proof (cases "sys_reads w 0 <s e")
    case True
    with body have "f (after_reads 0 1 w) e = Some w'"
      by (simp add: rdsysns_eq)
    from ih [OF this] obtain k where
      k: "w' = after_reads 0 (Suc k) (after_reads 0 1 w)"
        "\<not> sys_reads (after_reads 0 1 w) k <s e"
        "\<forall>j<k. sys_reads (after_reads 0 1 w) j <s e"
      by blast
    have "\<forall>j<Suc k. sys_reads w j <s e"
    proof (intro allI impI)
      fix j assume "j < Suc k"
      show "sys_reads w j <s e"
      proof (cases j)
        case 0
        with True show ?thesis by simp
      next
        case (Suc j')
        with \<open>j < Suc k\<close> k(3) show ?thesis by auto
      qed
    qed
    with k(1,2) show ?thesis
      by (intro exI [of _ "Suc k"]) (simp add: after_reads_after_reads)
  next
    case False
    with body show ?thesis
      by (intro exI [of _ 0]) (auto simp: rdsysns_eq)
  qed
qed

lemma syncTime_eq:
  "syncTime w =
     ((signed_drop_bit 1 (tsc_reads w (best_of w) + tsc_reads w (best_of w - 1)),
       sys_reads w (best_of w - 1)),
      after_reads 4 3 w)"
  by (simp add: syncTime_unfold N_def)

text \<open>
  Claim C8, amended. When \<open>init\<close> returns, \<open>base_tsc_\<close> and \<open>base_ns_\<close> are the pair of the
  first \<open>syncTime\<close>, \<open>ns_per_tsc_\<close> is \<open>(double)(ns2 - ns1) / (tsc2 - tsc1)\<close> with
  \<open>(tsc2, ns2)\<close> the pair of the second \<open>syncTime\<close>, \<open>base_ns_err_\<close> is 0 and the
  interval is stored. The second \<open>syncTime\<close> starts right after the first wall-clock
  reading that is not below \<open>ns1 + init_calibrate_ns\<close>; all \<open>k\<close> readings before it
  were below. So the two samples are at least \<open>init_calibrate_ns\<close> apart whenever the
  wall-clock readings of the call do not step back and \<open>ns1 + init_calibrate_ns\<close> fits
  in an \<open>int64_t\<close>.
\<close>

theorem init_commits:
  assumes "init fp s w a b = Some (s', w')"
  shows "\<exists>tsc1 ns1 k tsc2 ns2.
      syncTime w = ((tsc1, ns1), after_reads 4 3 w)
    \<and> \<not> sys_reads w (3 + k) <s ns1 + a
    \<and> (\<forall>j<k. sys_reads w (3 + j) <s ns1 + a)
    \<and> syncTime (after_reads 4 (4 + k) w) = ((tsc2, ns2), w')
    \<and> base_tsc s' = tsc1
    \<and> base_ns s' = ns1
    \<and> ns_per_tsc s' = d_div fp (d_of_int64 fp (ns2 - ns1)) (d_of_int64 fp (tsc2 - tsc1))
    \<and> base_ns_err s' = 0
    \<and> calibrate_interval_ns s' = b
    \<and> ((\<forall>i j. i \<le> j \<and> j \<le> 6 + k \<longrightarrow> sys_reads w i \<le>s sys_reads w j)
         \<and> - (2 ^ 63) \<le> sint ns1 + sint a \<and> sint ns1 + sint a < 2 ^ 63
       \<longrightarrow> sint a \<le> sint ns2 - sint ns1)"
proof -
  obtain tsc1 ns1 where s1: "syncTime w = ((tsc1, ns1), after_reads 4 3 w)"
    by (simp add: syncTime_eq)
  from assms s1 obtain w2 where
    w2: "wait_expire (after_reads 4 3 w) (ns1 + a) = Some w2"
    by (auto simp: init_def Let_def split: option.splits)
  from wait_expire_Some [OF w2] obtain k where
    k: "w2 = after_reads 4 (4 + k) w" "\<not> sys_reads w (3 + k) <s ns1 + a"
       "\<forall>j<k. sys_reads w (3 + j) <s ns1 + a"
    by (auto simp: after_reads_after_reads add.commute)
  obtain tsc2 ns2 w3 where s2: "syncTime w2 = ((tsc2, ns2), w3)"
    by (metis prod.exhaust)
  from assms s1 w2 s2 have
    r: "s' = saveParam fp (s\<lparr>calibrate_interval_ns := b\<rparr>) tsc1 ns1 0
             (d_div fp (d_of_int64 fp (ns2 - ns1)) (d_of_int64 fp (tsc2 - tsc1)))"
      "w' = w3"
    by (simp_all add: init_def Let_def)
  have apart: "sint a \<le> sint ns2 - sint ns1"
    if mono: "\<forall>i j. i \<le> j \<and> j \<le> 6 + k \<longrightarrow> sys_reads w i \<le>s sys_reads w j"
      and fits: "- (2 ^ 63) \<le> sint ns1 + sint a" "sint ns1 + sint a < 2 ^ 63"
  proof -
    from s2 k(1) have ns2: "ns2 = sys_reads w (best_of w2 - 1 + (4 + k))"
      by (simp add: syncTime_eq)
    from best_of_cases [of w2] have "3 + k \<le> best_of w2 - 1 + (4 + k)"
      "best_of w2 - 1 + (4 + k) \<le> 6 + k"
      by auto
    with mono ns2 have "sys_reads w (3 + k) \<le>s ns2" by blast
    moreover from k(2) have "ns1 + a \<le>s sys_reads w (3 + k)"
      by (simp add: word_sle_eq word_sless_alt)
    ultimately have "sint (ns1 + a) \<le> sint ns2"
      by (simp add: word_sle_eq)
    moreover from fits have "sint (ns1 + a) = sint ns1 + sint a"
      by (simp add: sint_word_ariths signed_take_bit_int_eq_self)
    ultimately show ?thesis by simp
  qed
  from s1 k s2 r apart show ?thesis
    by (intro exI [of _ tsc1] exI [of _ ns1] exI [of _ k] exI [of _ tsc2] exI [of _ ns2])
      (simp add: saveParam_fields)
qed

lemma init_returns:
  assumes "\<not> sys_reads w (3 + k) <s snd (fst (syncTime w)) + a"
  shows "init fp s w a b \<noteq> None"
proof -
  from assms have "\<not> sys_reads (after_reads 4 3 w) k <s snd (fst (syncTime w)) + a"
    by (simp add: add.commute)
  then have "wait_expire (after_reads 4 3 w) (snd (fst (syncTime w)) + a) \<noteq> None"
    by (rule wait_expire_returns)
  then show ?thesis
    by (auto simp: init_def Let_def syncTime_eq split: prod.splits)
qed

lemma sync_w_init: "syncTime w_init = ((1005, 500), after_reads 4 3 w_init)"
proof -
  have "best_of w_init = 1"
    by (simp add: best_of_def delta_def w_init_def)
  then show ?thesis
    by (simp add: syncTime_eq) (simp add: w_init_def)
qed

lemma sync_w_init_delayed:
  "syncTime (after_reads 4 5 w_init) = ((40001205, 20000600), after_reads 8 8 w_init)"
proof -
  have "best_of (after_reads 4 5 w_init) = 1"
    by (simp add: best_of_def delta_def w_init_def)
  then show ?thesis
    by (simp add: syncTime_eq after_reads_after_reads) (simp add: w_init_def)
qed

lemma wait_w_init:
  "wait_expire (after_reads 4 3 w_init) 20000500 = Some (after_reads 4 5 w_init)"
  apply (subst wait_expire.simps)
  apply (simp add: rdsysns_eq after_reads_after_reads)
  apply (subst wait_expire.simps)
  apply (simp add: rdsysns_eq after_reads_after_reads)
  apply (simp add: w_init_def word_sless_alt)
  done

lemma init_w_init:
  "init binary64 s_zero w_init 20000000 3000000000 = Some (s_init, after_reads 8 8 w_init)"
proof -
  have r: "b64_div (b64_of_int64 (20000600 - 500)) (b64_of_int64 (40001205 - 1005)) = Finite False (1 / 2)"
    by (simp add: b64_eval)
  have n: "b64_to_int64 (b64_div (b64_of_int64 (3000000000 - 1000)) (Finite False (1 / 2))) = 5999998000"
    by (simp add: b64_eval)
  have "saveParam binary64 (s_zero\<lparr>calibrate_interval_ns := 3000000000\<rparr>) 1005 500 0 (Finite False (1 / 2)) = s_init"
    using n by (simp add: saveParam_def saveParam_trace_def Let_def s_zero_def s_init_def binary64_def)
  then show ?thesis
    using r by (simp add: init_def sync_w_init wait_w_init sync_w_init_delayed Let_def binary64_def)
qed

lemma w_init_monotone: "i \<le> j \<Longrightarrow> j \<le> 7 \<Longrightarrow> sys_reads w_init i \<le>s sys_reads w_init j"
proof -
  assume ij: "i \<le> j" "j \<le> 7"
  let ?xs = "[500, 600, 700, 800, 20000500, 20000600, 20000700, 20000800] :: int64 list"
  have "sorted_wrt (\<le>s) ?xs" by (simp add: word_sle_eq)
  moreover from ij have "j < length ?xs" by simp
  ultimately have "?xs ! i \<le>s ?xs ! j"
    using ij(1) by (cases "i = j") (auto simp: sorted_wrt_iff_nth_less)
  then show ?thesis by (simp add: w_init_def)
qed

text \<open>
  The theorem of C8 on the run \<open>w_init\<close>, where \<open>init\<close> returns: one reading of the
  wait loop is below the expiry, the wall clock does not step back, and the two samples
  are 20000100 ns apart.
\<close>

theorem init_commits_witness:
  "init binary64 s_zero w_init 20000000 3000000000 = Some (s_init, after_reads 8 8 w_init)
   \<and> base_tsc s_init = 1005 \<and> base_ns s_init = 500 \<and> base_ns_err s_init = 0
   \<and> calibrate_interval_ns s_init = 3000000000
   \<and> ns_per_tsc s_init = b64_div (b64_of_int64 (20000600 - 500)) (b64_of_int64 (40001205 - 1005))
   \<and> ns_per_tsc s_init = Finite False (1 / 2)
   \<and> sint (20000000 :: int64) \<le> sint (20000600 :: int64) - sint (500 :: int64)"
proof -
  from init_commits [OF init_w_init] obtain tsc1 ns1 k tsc2 ns2 where
    s1: "syncTime w_init = ((tsc1, ns1), after_reads 4 3 w_init)" and
    x: "\<not> sys_reads w_init (3 + k) <s ns1 + 20000000" and
    b: "\<forall>j<k. sys_reads w_init (3 + j) <s ns1 + 20000000" and
    s2: "syncTime (after_reads 4 (4 + k) w_init) = ((tsc2, ns2), after_reads 8 8 w_init)" and
    f: "base_tsc s_init = tsc1" "base_ns s_init = ns1" "base_ns_err s_init = 0"
       "calibrate_interval_ns s_init = 3000000000"
       "ns_per_tsc s_init =
          d_div binary64 (d_of_int64 binary64 (ns2 - ns1)) (d_of_int64 binary64 (tsc2 - tsc1))" and
    m: "(\<forall>i j. i \<le> j \<and> j \<le> 6 + k \<longrightarrow> sys_reads w_init i \<le>s sys_reads w_init j)
         \<and> - (2 ^ 63) \<le> sint ns1 + sint (20000000 :: int64)
         \<and> sint ns1 + sint (20000000 :: int64) < 2 ^ 63
       \<longrightarrow> sint (20000000 :: int64) \<le> sint ns2 - sint ns1"
    by blast
  from s1 have n1: "tsc1 = 1005" "ns1 = 500" by (simp_all add: sync_w_init)
  have k: "k = 1"
  proof -
    have "k \<noteq> 0"
    proof
      assume "k = 0"
      with x n1 show False by (simp add: w_init_def word_sless_alt)
    qed
    moreover have "\<not> 1 < k"
    proof
      assume "1 < k"
      with b have "sys_reads w_init (3 + 1) <s ns1 + 20000000" by blast
      with n1 show False by (simp add: w_init_def word_sless_alt)
    qed
    ultimately show ?thesis by simp
  qed
  from s2 k have n2: "tsc2 = 40001205" "ns2 = 20000600" by (simp_all add: sync_w_init_delayed)
  from k w_init_monotone have "\<forall>i j. i \<le> j \<and> j \<le> 6 + k \<longrightarrow> sys_reads w_init i \<le>s sys_reads w_init j"
    by simp
  with m n1 n2 have "sint (20000000 :: int64) \<le> sint (20000600 :: int64) - sint (500 :: int64)"
    by simp
  moreover from f(5) n1 n2
  have "ns_per_tsc s_init = b64_div (b64_of_int64 (20000600 - 500)) (b64_of_int64 (40001205 - 1005))"
    by (simp add: binary64_def)
  moreover have "ns_per_tsc s_init = Finite False (1 / 2)" by (simp add: s_init_def)
  ultimately show ?thesis
    using f(1-4) n1 init_w_init by simp
qed

lemma sync_w_back: "syncTime w_back = ((1005, 500), after_reads 4 3 w_back)"
proof -
  have "best_of w_back = 1"
    by (simp add: best_of_def delta_def w_back_def)
  then show ?thesis
    by (simp add: syncTime_eq) (simp add: w_back_def)
qed

lemma sync_w_back_delayed:
  "syncTime (after_reads 4 5 w_back) = ((40001205, 5000525), after_reads 8 8 w_back)"
proof -
  have "best_of (after_reads 4 5 w_back) = 1"
    by (simp add: best_of_def delta_def w_back_def)
  then show ?thesis
    by (simp add: syncTime_eq after_reads_after_reads) (simp add: w_back_def)
qed

lemma wait_w_back:
  "wait_expire (after_reads 4 3 w_back) 20000500 = Some (after_reads 4 5 w_back)"
  apply (subst wait_expire.simps)
  apply (simp add: rdsysns_eq after_reads_after_reads)
  apply (subst wait_expire.simps)
  apply (simp add: rdsysns_eq after_reads_after_reads)
  apply (simp add: w_back_def word_sless_alt)
  done

lemma init_w_back:
  "init binary64 s_zero w_back 20000000 3000000000 = Some (s_back, after_reads 8 8 w_back)"
proof -
  have r: "b64_div (b64_of_int64 (5000525 - 500)) (b64_of_int64 (40001205 - 1005)) = Finite False (1 / 8)"
    by (simp add: b64_eval)
  have n: "b64_to_int64 (b64_div (b64_of_int64 (3000000000 - 1000)) (Finite False (1 / 8))) = 23999992000"
    by (simp add: b64_eval)
  have "saveParam binary64 (s_zero\<lparr>calibrate_interval_ns := 3000000000\<rparr>) 1005 500 0 (Finite False (1 / 8)) = s_back"
    using n by (simp add: saveParam_def saveParam_trace_def Let_def s_zero_def s_back_def binary64_def)
  then show ?thesis
    using r by (simp add: init_def sync_w_back wait_w_back sync_w_back_delayed Let_def binary64_def)
qed

lemma sync_w_overflow: "syncTime w_overflow = ((1005, 500), after_reads 4 3 w_overflow)"
proof -
  have "best_of w_overflow = 1"
    by (simp add: best_of_def delta_def w_overflow_def)
  then show ?thesis
    by (simp add: syncTime_eq) (simp add: w_overflow_def)
qed

lemma sync_w_overflow_delayed:
  "syncTime (after_reads 4 4 w_overflow) = ((40001205, 20000600), after_reads 8 7 w_overflow)"
proof -
  have "best_of (after_reads 4 4 w_overflow) = 1"
    by (simp add: best_of_def delta_def w_overflow_def)
  then show ?thesis
    by (simp add: syncTime_eq after_reads_after_reads) (simp add: w_overflow_def)
qed

lemma wait_w_overflow:
  "wait_expire (after_reads 4 3 w_overflow) (500 + 9223372036854775807)
     = Some (after_reads 4 4 w_overflow)"
  apply (subst wait_expire.simps)
  apply (simp add: rdsysns_eq after_reads_after_reads)
  apply (simp add: w_overflow_def word_sless_alt)
  done

lemma init_w_overflow:
  "init binary64 s_zero w_overflow 9223372036854775807 3000000000
     = Some (s_init, after_reads 8 7 w_overflow)"
proof -
  have r: "b64_div (b64_of_int64 (20000600 - 500)) (b64_of_int64 (40001205 - 1005)) = Finite False (1 / 2)"
    by (simp add: b64_eval)
  have n: "b64_to_int64 (b64_div (b64_of_int64 (3000000000 - 1000)) (Finite False (1 / 2))) = 5999998000"
    by (simp add: b64_eval)
  have "saveParam binary64 (s_zero\<lparr>calibrate_interval_ns := 3000000000\<rparr>) 1005 500 0 (Finite False (1 / 2)) = s_init"
    using n by (simp add: saveParam_def saveParam_trace_def Let_def s_zero_def s_init_def binary64_def)
  then show ?thesis
    using r wait_w_overflow
    by (simp add: init_def sync_w_overflow sync_w_overflow_delayed Let_def binary64_def)
qed

text \<open>
  Claim C8 as stated fails where it says the two samples are at least
  \<open>init_calibrate_ns\<close> apart. On \<open>w_back\<close> the wait loop ends at the reading 20000500
  and the wall clock is then set back: the second sample is 5000525, 5000025 ns after
  the first, for an \<open>init_calibrate_ns\<close> of 20000000. On \<open>w_overflow\<close>
  \<open>init_calibrate_ns\<close> is \<open>2 ^ 63 - 1\<close>: \<open>base_ns + init_calibrate_ns\<close> wraps below
  zero, the wait loop ends at its first reading, and the samples are 20000100 ns apart.
\<close>

theorem init_samples_closer_counterexample:
  "init binary64 s_zero w_back 20000000 3000000000 = Some (s_back, after_reads 8 8 w_back)
   \<and> syncTime w_back = ((1005, 500), after_reads 4 3 w_back)
   \<and> syncTime (after_reads 4 5 w_back) = ((40001205, 5000525), after_reads 8 8 w_back)
   \<and> ns_per_tsc s_back = b64_div (b64_of_int64 (5000525 - 500)) (b64_of_int64 (40001205 - 1005))
   \<and> sint (5000525 - 500 :: int64) = 5000025
   \<and> \<not> sint (20000000 :: int64) \<le> sint (5000525 - 500 :: int64)
   \<and> init binary64 s_zero w_overflow 9223372036854775807 3000000000
       = Some (s_init, after_reads 8 7 w_overflow)
   \<and> syncTime w_overflow = ((1005, 500), after_reads 4 3 w_overflow)
   \<and> syncTime (after_reads 4 4 w_overflow) = ((40001205, 20000600), after_reads 8 7 w_overflow)
   \<and> ns_per_tsc s_init = b64_div (b64_of_int64 (20000600 - 500)) (b64_of_int64 (40001205 - 1005))
   \<and> sint (20000600 - 500 :: int64) = 20000100
   \<and> \<not> sint (9223372036854775807 :: int64) \<le> sint (20000600 - 500 :: int64)"
proof -
  have "ns_per_tsc s_back = b64_div (b64_of_int64 (5000525 - 500)) (b64_of_int64 (40001205 - 1005))"
    by (simp add: s_back_def b64_eval)
  moreover have "ns_per_tsc s_init = b64_div (b64_of_int64 (20000600 - 500)) (b64_of_int64 (40001205 - 1005))"
    by (simp add: s_init_def b64_eval)
  ultimately show ?thesis
    using init_w_back sync_w_back sync_w_back_delayed init_w_overflow sync_w_overflow
      sync_w_overflow_delayed
    by simp
qed

end
